theory Spec2Isabelle
  imports Main "HOL-Library.Word"
begin

section \<open>The binding layer of pycorels (libcorels.pyx)\<close>

text \<open>
  The module has two halves. \<open>predict_wrap\<close> evaluates an extracted rule list on a
  matrix of samples. \<open>fit_wrap_begin\<close>, \<open>fit_wrap_loop\<close> and \<open>fit_wrap_end\<close> drive the
  native search through four module-level variables (\<open>rules\<close>, \<open>labels_vecs\<close>,
  \<open>minor\<close>, \<open>nrules\<close>). The native functions (\<open>ascii_to_vector\<close>, \<open>mine_rules\<close>,
  \<open>minority\<close>, \<open>run_corels_begin\<close>, \<open>run_corels_end\<close>) are declared in the module and
  defined elsewhere: the model takes them as parameters.
\<close>

subsection \<open>Data\<close>

text \<open>
  A two-dimensional \<open>np.uint8\<close> array: its shape and its cells. Only cells inside the
  shape are ever read by the model. The module keeps the two dimensions in C \<open>int\<close>s;
  they are taken to fit.
\<close>

record ndarray =
  shape0 :: nat
  shape1 :: nat
  item :: "nat \<Rightarrow> nat \<Rightarrow> 8 word"

text \<open>An array given by its rows, for concrete inputs.\<close>

definition of_rows :: "nat \<Rightarrow> 8 word list list \<Rightarrow> ndarray" where
  "of_rows ncols rows =
     \<lparr>shape0 = length rows, shape1 = ncols, item = (\<lambda>i j. rows ! i ! j)\<rparr>"

text \<open>
  One entry of a rule list, the dictionary
  \<open>{'antecedents': [...], 'prediction': c}\<close>.
\<close>

record rule =
  antecedents :: "int list"
  prediction :: int

text \<open>The messages of the module's \<open>ValueError\<close>s, with the numbers they print.\<close>

datatype message =
    Predict_feature_count int int
  | Could_not_load_samples
  | Fit_feature_count int int
  | Fit_sample_count int int

text \<open>
  \<open>Unspecified\<close> stands for what the source does not determine: undefined behaviour of
  the generated C (a signed overflow, a read or write outside a buffer, a free of a block
  that is not live) and a store whose outcome depends on the NumPy version.
\<close>

datatype error =
    ValueError message
  | MemoryError
  | OverflowError
  | UnicodeEncodeError
  | Unspecified

subsection \<open>The evaluator \<open>predict_wrap\<close>\<close>

text \<open>
  The coercion of a Python integer to a C \<open>int\<close>, as Cython generates it for an
  assignment to a \<open>cdef int\<close>: a value outside 32 bits raises \<open>OverflowError\<close>.
\<close>

definition as_int :: "int \<Rightarrow> error + int" where
  "as_int v = (if - (2 ^ 31) \<le> v \<and> v < 2 ^ 31 then Inr v else Inl OverflowError)"

fun as_ints :: "int list \<Rightarrow> error + int list" where
  "as_ints [] = Inr []"
| "as_ints (v # vs) =
     (case as_int v of
        Inl e \<Rightarrow> Inl e
      | Inr w \<Rightarrow> (case as_ints vs of Inl e \<Rightarrow> Inl e | Inr ws \<Rightarrow> Inr (w # ws)))"

text \<open>
  Lines 62 to 67: the rules before the default rule are copied into C arrays
  (\<open>antecedent_lengths\<close>, \<open>predictions\<close>, \<open>antecedents\<close>), the prediction first, then
  the literals in order. The allocations of lines 58 to 65 are not checked by the source
  and are taken to succeed.
\<close>

fun load_rules :: "rule list \<Rightarrow> error + rule list" where
  "load_rules [] = Inr []"
| "load_rules (r # rs) =
     (case as_int (prediction r) of
        Inl e \<Rightarrow> Inl e
      | Inr p \<Rightarrow>
          (case as_ints (antecedents r) of
             Inl e \<Rightarrow> Inl e
           | Inr ks \<Rightarrow>
               (case load_rules rs of
                  Inl e \<Rightarrow> Inl e
                | Inr rs' \<Rightarrow> Inr (\<lparr>antecedents = ks, prediction = p\<rparr> # rs'))))"

text \<open>
  Lines 74 to 81, one literal \<open>a\<close> of a rule on sample \<open>s\<close>: whether the test
  \<open>idx >= nfeatures or X[s, idx] != c\<close> succeeds, that is, whether the literal fails.
  The negation of \<open>INT_MIN\<close> overflows, and the literal 0 gives \<open>idx = -1\<close>, which the
  first disjunct lets through to a read before the row (bounds checking and wrap-around
  are switched off): both are \<open>Unspecified\<close>.
\<close>

definition literal_fails :: "ndarray \<Rightarrow> nat \<Rightarrow> int \<Rightarrow> error + bool" where
  "literal_fails X s a =
     (if a = - (2 ^ 31) then Inl Unspecified
      else
        let c = (if a < 0 then 0 else 1);
            idx = (if a < 0 then - a else a) - 1
        in if int (shape1 X) \<le> idx then Inr True
           else if idx < 0 then Inl Unspecified
           else Inr (uint (item X s (nat idx)) \<noteq> c))"

text \<open>
  Lines 71 to 83, the loop over the literals of one rule: the value of \<open>next_rule\<close>
  after it, 1 as soon as a literal fails (\<open>break\<close>), else the 0 of line 71.
\<close>

fun test_rule :: "ndarray \<Rightarrow> nat \<Rightarrow> int list \<Rightarrow> error + int" where
  "test_rule X s [] = Inr 0"
| "test_rule X s (a # ks) =
     (case literal_fails X s a of
        Inl e \<Rightarrow> Inl e
      | Inr failed \<Rightarrow> if failed then Inr 1 else test_rule X s ks)"

text \<open>
  A store into the \<open>np.uint8\<close> result array. The values 0 to 255 are stored as they
  are; for any other value NumPy raises or wraps, depending on its version.
\<close>

definition setitem :: "int list \<Rightarrow> nat \<Rightarrow> int \<Rightarrow> error + int list" where
  "setitem out s v =
     (if 0 \<le> v \<and> v < 256 then Inr (out[s := v]) else Inl Unspecified)"

text \<open>
  Lines 70 to 87, the loop over the rules for sample \<open>s\<close>. The state is the pair of
  \<open>next_rule\<close> and \<open>out\<close>: \<open>next_rule\<close> is assigned only inside the loop body, so a
  loop over no rules leaves it as it was.
\<close>

fun rule_loop ::
  "ndarray \<Rightarrow> nat \<Rightarrow> rule list \<Rightarrow> int \<Rightarrow> int list \<Rightarrow> error + (int \<times> int list)" where
  "rule_loop X s [] next_rule out = Inr (next_rule, out)"
| "rule_loop X s (r # rs) next_rule out =
     (case test_rule X s (antecedents r) of
        Inl e \<Rightarrow> Inl e
      | Inr nr \<Rightarrow>
          if nr = 0 then
            (case setitem out s (prediction r) of
               Inl e \<Rightarrow> Inl e
             | Inr out' \<Rightarrow> Inr (nr, out'))
          else rule_loop X s rs nr out)"

text \<open>
  Lines 69 to 90, the loop over the samples. \<open>next_rule\<close> is a local of the whole
  function, so it is carried from one sample to the next.
\<close>

fun sample_loop ::
  "ndarray \<Rightarrow> rule list \<Rightarrow> int \<Rightarrow> nat list \<Rightarrow> int \<Rightarrow> int list \<Rightarrow> error + int list" where
  "sample_loop X rs dflt [] next_rule out = Inr out"
| "sample_loop X rs dflt (s # ss) next_rule out =
     (case rule_loop X s rs next_rule out of
        Inl e \<Rightarrow> Inl e
      | Inr (nr, out1) \<Rightarrow>
          if nr = 1 then
            (case setitem out1 s dflt of
               Inl e \<Rightarrow> Inl e
             | Inr out2 \<Rightarrow> sample_loop X rs dflt ss nr out2)
          else sample_loop X rs dflt ss nr out1)"

text \<open>
  \<open>predict_wrap\<close>, lines 42 to 98. Cython declares the C local \<open>next_rule\<close> without an
  initialiser and the function assigns it only at line 71, inside the loop over the
  rules: the first argument \<open>next_rule0\<close> is what the variable holds before that.
  The result is the array \<open>out\<close>, or the exception raised.
\<close>

definition predict_wrap :: "int \<Rightarrow> ndarray \<Rightarrow> string list \<Rightarrow> rule list \<Rightarrow> error + int list" where
  "predict_wrap next_rule0 X features rules =
     (let nsamples = shape0 X;
          nfeatures = int (shape1 X)
      in if nfeatures \<noteq> int (length features) - 1 then
           Inl (ValueError (Predict_feature_count nfeatures (int (length features) - 1)))
         else
           let out = replicate nsamples 0;
               nrules = int (length rules) - 1
           in if nrules < 0 then Inr out
              else
                (case as_int (prediction (rules ! nat nrules)) of
                   Inl e \<Rightarrow> Inl e
                 | Inr dflt \<Rightarrow>
                     (case load_rules (take (nat nrules) rules) of
                        Inl e \<Rightarrow> Inl e
                      | Inr rs \<Rightarrow> sample_loop X rs dflt [0..<nsamples] next_rule0 out)))"

subsection \<open>The evaluation of a rule list, in the words of the specification\<close>






definition uint8_class :: "int \<Rightarrow> bool" where
  "uint8_class c = (0 \<le> c \<and> c < 256)"


text \<open>The four samples of two features of the specification's example scenario.\<close>

definition X4 :: ndarray where
  "X4 = of_rows 2 [[0, 0], [0, 1], [1, 0], [1, 1]]"

subsection \<open>Native records, the heap and the module state\<close>

text \<open>
  The struct \<open>rule\<close> of \<open>rule.h\<close>. The field \<open>features\<close> is called \<open>label\<close> here, since
  \<open>features\<close> is also an argument of the module's functions. A \<open>NULL\<close> pointer is
  \<open>None\<close>.
\<close>

record rule_t =
  truthtable :: "bool list"
  label :: "string option"
  cardinality :: int
  ids :: "int list option"
  support :: int

text \<open>
  The heap holds one block for each array the module allocates: an array of \<open>rule_t\<close>
  together with the buffers its records own, or the \<open>char**\<close> table of feature names
  with its strings. An address is an index into the list of all blocks ever allocated, so
  a new block never takes the address of another one; a freed block is \<open>None\<close>.
\<close>

datatype block = Records "rule_t list" | Strings "string list"

type_synonym addr = nat

type_synonym heap = "block option list"

definition cell :: "heap \<Rightarrow> addr \<Rightarrow> block option" where
  "cell h p = (if p < length h then h ! p else None)"

definition malloc :: "block \<Rightarrow> heap \<Rightarrow> addr \<times> heap" where
  "malloc b h = (length h, h @ [Some b])"

definition records_at :: "heap \<Rightarrow> addr option \<Rightarrow> rule_t list option" where
  "records_at h vs =
     (case vs of
        None \<Rightarrow> None
      | Some p \<Rightarrow> (case cell h p of Some (Records rs) \<Rightarrow> Some rs | _ \<Rightarrow> None))"

definition strings_at :: "heap \<Rightarrow> addr \<Rightarrow> string list option" where
  "strings_at h p = (case cell h p of Some (Strings fs) \<Rightarrow> Some fs | _ \<Rightarrow> None)"

text \<open>
  The module-level variables \<open>rules\<close>, \<open>labels_vecs\<close>, \<open>minor\<close> and \<open>nrules\<close> of
  lines 153 to 156 (prefixed, since \<open>rules\<close> and \<open>nrules\<close> are also names inside
  \<open>predict_wrap\<close>), and the heap.
\<close>

record state =
  g_rules :: "addr option"
  g_labels_vecs :: "addr option"
  g_minor :: "addr option"
  g_nrules :: int
  mem :: heap

text \<open>
  The native functions and the allocator, as the module sees them. The type \<open>'c\<close> is
  the tuple of numeric options (\<open>max_card\<close>, \<open>min_support\<close>, \<open>mverbose\<close>, \<open>c\<close>,
  \<open>policy\<close>, \<open>map_type\<close>, \<open>log_freq\<close>, \<open>ablation\<close>, \<open>calculate_size\<close>), which the
  module only hands on.
  \<^item> \<open>malloc_ok k\<close>: whether an allocation that the source checks succeeds when \<open>k\<close>
    blocks have been allocated before it. Allocations that the source does not check
    are taken to succeed.
  \<^item> \<open>ascii_to_vector line len ncount\<close>: \<open>None\<close> for a non-zero return, else the new
    value of \<open>*ncount\<close>, the count of ones and the truth table.
  \<^item> \<open>mine_rules\<close>: its return value and what it stores through \<open>rules_out\<close>,
    \<open>NULL\<close> or a new array.
  \<^item> \<open>minority\<close>: its return value and the record it leaves in \<open>*minor\<close>.
  \<^item> \<open>run_corels_begin\<close>: its return value.
\<close>

record 'c extern =
  malloc_ok :: "nat \<Rightarrow> bool"
  ascii_to_vector :: "string \<Rightarrow> nat \<Rightarrow> int \<Rightarrow> (int \<times> int \<times> bool list) option"
  mine_rules :: "'c \<Rightarrow> string list \<Rightarrow> rule_t list \<Rightarrow> int \<Rightarrow> nat \<Rightarrow> int \<times> rule_t list option"
  minority :: "'c \<Rightarrow> rule_t list \<Rightarrow> int \<Rightarrow> rule_t list \<Rightarrow> nat \<Rightarrow> int \<times> rule_t"
  run_corels_begin ::
    "'c \<Rightarrow> string \<Rightarrow> int \<Rightarrow> nat \<Rightarrow> rule_t list \<Rightarrow> rule_t list \<Rightarrow> rule_t \<Rightarrow> int"

subsection \<open>The helpers \<open>_to_vector\<close> and \<open>_free_vector\<close>\<close>

text \<open>\<open>str\<close> of a \<open>np.uint8\<close>: its decimal digits.\<close>

definition digit :: "nat \<Rightarrow> char" where
  "digit n = char_of (48 + n)"

definition str_uint8 :: "8 word \<Rightarrow> string" where
  "str_uint8 w =
     (let n = unat w
      in if n < 10 then [digit n]
         else if n < 100 then [digit (n div 10), digit (n mod 10)]
         else [digit (n div 100), digit (n div 10 mod 10), digit (n mod 10)])"

text \<open>Lines 110 to 112: the row \<open>i\<close> as a string.\<close>

definition arrstr :: "ndarray \<Rightarrow> nat \<Rightarrow> string" where
  "arrstr X i = concat (map (\<lambda>j. str_uint8 (item X i j)) [0..<shape1 X])"

text \<open>
  Lines 109 to 125, the loop over the rows: the records built and the last value of
  \<open>*ncount\<close>, or \<open>None\<close> when \<open>ascii_to_vector\<close> fails on a row.
\<close>

fun encode_rows :: "'c extern \<Rightarrow> ndarray \<Rightarrow> nat list \<Rightarrow> int \<Rightarrow> (rule_t list \<times> int) option" where
  "encode_rows ext X [] ncount = Some ([], ncount)"
| "encode_rows ext X (i # rows) ncount =
     (case ascii_to_vector ext (arrstr X i) (length (arrstr X i)) ncount of
        None \<Rightarrow> None
      | Some (ncount1, nones, v) \<Rightarrow>
          (case encode_rows ext X rows ncount1 of
             None \<Rightarrow> None
           | Some (vs, ncount2) \<Rightarrow>
               Some (\<lparr>truthtable = v, label = None, cardinality = 1, ids = None,
                      support = nones\<rparr> # vs, ncount2)))"

text \<open>
  \<open>_to_vector\<close>, lines 100 to 127: the address of the new array and the value left in
  \<open>*ncount\<close>. When a row fails, the truth tables of the rows before it and the array are
  freed before the \<open>ValueError\<close>.
\<close>

definition to_vector :: "'c extern \<Rightarrow> ndarray \<Rightarrow> int \<Rightarrow> heap \<Rightarrow> (error + (addr \<times> int)) \<times> heap" where
  "to_vector ext X ncount h =
     (if \<not> malloc_ok ext (length h) then (Inl MemoryError, h)
      else
        (case malloc (Records []) h of
           (vectors, h1) \<Rightarrow>
             (case encode_rows ext X [0..<shape0 X] ncount of
                None \<Rightarrow> (Inl (ValueError Could_not_load_samples), h1[vectors := None])
              | Some (vs, ncount') \<Rightarrow>
                  (Inr (vectors, ncount'), h1[vectors := Some (Records vs)]))))"

text \<open>
  \<open>_free_vector\<close>, lines 129 to 141. It returns at once on \<open>NULL\<close>; else it frees the
  buffers of the first \<open>count\<close> records and the array. A pointer to a block that is not
  live, and a \<open>count\<close> beyond the array, are \<open>Unspecified\<close>. With a smaller \<open>count\<close>
  the buffers of the other records are never freed; the model's blocks do not show that.
\<close>

definition free_vector :: "addr option \<Rightarrow> int \<Rightarrow> heap \<Rightarrow> error + heap" where
  "free_vector vs count h =
     (case vs of
        None \<Rightarrow> Inr h
      | Some p \<Rightarrow>
          (case records_at h (Some p) of
             None \<Rightarrow> Inl Unspecified
           | Some rs \<Rightarrow>
               if count \<le> int (length rs) then Inr (h[p := None]) else Inl Unspecified))"

subsection \<open>The session start \<open>fit_wrap_begin\<close>\<close>

text \<open>
  \<open>str.encode('ascii')\<close> raises on a character outside ASCII; \<open>strdup\<close> copies up to
  the first NUL.
\<close>

definition encode_ascii :: "string \<Rightarrow> error + string" where
  "encode_ascii s =
     (if list_all (\<lambda>ch. (of_char ch :: nat) < 128) s then Inr s else Inl UnicodeEncodeError)"

definition strdup :: "string \<Rightarrow> string" where
  "strdup s = takeWhile (\<lambda>ch. ch \<noteq> CHR 0x00) s"

text \<open>Lines 183 to 185, the loop that fills \<open>features_vec\<close>.\<close>

fun encode_features :: "string list \<Rightarrow> error + string list" where
  "encode_features [] = Inr []"
| "encode_features (f # fs) =
     (case encode_ascii f of
        Inl e \<Rightarrow> Inl e
      | Inr bytestr \<Rightarrow>
          (case encode_features fs of
             Inl e \<Rightarrow> Inl e
           | Inr out \<Rightarrow> Inr (strdup bytestr # out)))"

text \<open>
  Lines 168 to 185: the samples are encoded, the feature count is checked against the
  feature names, and the table of names is built. The result is \<open>samples_vecs\<close>,
  \<open>nfeatures\<close> and \<open>features_vec\<close>.
\<close>

definition load_samples ::
  "'c extern \<Rightarrow> ndarray \<Rightarrow> string list \<Rightarrow> state \<Rightarrow> (error + (addr \<times> int \<times> addr)) \<times> state" where
  "load_samples ext samples features st =
     (case to_vector ext samples 0 (mem st) of
        (Inl e, h) \<Rightarrow> (Inl e, st\<lparr>mem := h\<rparr>)
      | (Inr (samples_vecs, nfeatures), h) \<Rightarrow>
          let nsamples = int (shape0 samples)
          in if nfeatures > int (length features) then
               (case free_vector (Some samples_vecs) nsamples h of
                  Inl e \<Rightarrow> (Inl e, st\<lparr>mem := h\<rparr>)
                | Inr h1 \<Rightarrow>
                    (Inl (ValueError (Fit_feature_count nfeatures (int (length features)))),
                     st\<lparr>mem := h1\<rparr>))
             else if \<not> malloc_ok ext (length h) then
               (case free_vector (Some samples_vecs) nsamples h of
                  Inl e \<Rightarrow> (Inl e, st\<lparr>mem := h\<rparr>)
                | Inr h1 \<Rightarrow> (Inl MemoryError, st\<lparr>mem := h1\<rparr>))
             else
               (case malloc (Strings []) h of
                  (features_vec, h1) \<Rightarrow>
                    (case encode_features (take (nat nfeatures) features) of
                       Inl e \<Rightarrow> (Inl e, st\<lparr>mem := h1\<rparr>)
                     | Inr fs \<Rightarrow>
                         (Inr (samples_vecs, nfeatures, features_vec),
                          st\<lparr>mem := h1[features_vec := Some (Strings fs)]\<rparr>))))"

text \<open>
  Lines 187 to 190: a pool left by an earlier session is released before the miner runs.
\<close>

definition release_pool :: "state \<Rightarrow> error + state" where
  "release_pool st =
     (if g_rules st \<noteq> None \<and> g_nrules st \<noteq> 0 then
        (case free_vector (g_rules st) (g_nrules st) (mem st) of
           Inl e \<Rightarrow> Inl e
         | Inr h \<Rightarrow> Inr (st\<lparr>g_rules := None, g_nrules := 0, mem := h\<rparr>))
      else Inr st)"

text \<open>
  Lines 187 to 204: the miner stores the new pool in \<open>rules\<close>; the table of names and
  the sample records are freed; a return value of -1 or a \<open>NULL\<close> pool is a
  \<open>MemoryError\<close>; else \<open>nrules\<close> becomes the return value.
\<close>

definition mine_pool ::
  "'c extern \<Rightarrow> 'c \<Rightarrow> ndarray \<Rightarrow> addr \<Rightarrow> int \<Rightarrow> addr \<Rightarrow> state \<Rightarrow> (error + unit) \<times> state" where
  "mine_pool ext cfg samples samples_vecs nfeatures features_vec st =
     (let nsamples = shape0 samples
      in case release_pool st of
           Inl e \<Rightarrow> (Inl e, st)
         | Inr st1 \<Rightarrow>
             (case (strings_at (mem st1) features_vec,
                    records_at (mem st1) (Some samples_vecs)) of
                (Some fs, Some svs) \<Rightarrow>
                  (case mine_rules ext cfg fs svs nfeatures nsamples of
                     (r, pool) \<Rightarrow>
                       let st2 =
                             (case pool of
                                None \<Rightarrow> st1\<lparr>g_rules := None\<rparr>
                              | Some rs \<Rightarrow>
                                  (case malloc (Records rs) (mem st1) of
                                     (p, h) \<Rightarrow> st1\<lparr>g_rules := Some p, mem := h\<rparr>));
                           h3 = (mem st2)[features_vec := None]
                       in (case free_vector (Some samples_vecs) (int nsamples) h3 of
                             Inl e \<Rightarrow> (Inl e, st2\<lparr>mem := h3\<rparr>)
                           | Inr h4 \<Rightarrow>
                               if r = - 1 \<or> g_rules st2 = None then
                                 (Inl MemoryError, st2\<lparr>mem := h4\<rparr>)
                               else (Inr (), st2\<lparr>mem := h4, g_nrules := r\<rparr>)))
              | _ \<Rightarrow> (Inl Unspecified, st1)))"

text \<open>
  Lines 226 to 229: the two label records get their names. Fewer than two records make
  the writes go outside the array.
\<close>

definition name_labels :: "rule_t list \<Rightarrow> rule_t list option" where
  "name_labels vs =
     (case vs of
        l0 # l1 # rest \<Rightarrow>
          Some (l0\<lparr>label := Some ''label=0''\<rparr> # l1\<lparr>label := Some ''label=1''\<rparr> # rest)
      | _ \<Rightarrow> None)"

text \<open>Lines 209 to 211: label records left by an earlier session are released.\<close>

definition release_labels :: "state \<Rightarrow> error + state" where
  "release_labels st =
     (if g_labels_vecs st \<noteq> None then
        (case free_vector (g_labels_vecs st) 2 (mem st) of
           Inl e \<Rightarrow> Inl e
         | Inr h \<Rightarrow> Inr (st\<lparr>g_labels_vecs := None, mem := h\<rparr>))
      else Inr st)"

text \<open>
  Lines 206 to 229: the verbosity string is encoded, label records of an earlier session
  are released, the labels are encoded, and their sample count is checked against the
  rows of the samples. On an exception of \<open>_to_vector\<close> and on a mismatch the blocks
  are freed and the module variables keep their values. The result is \<open>verbosity\<close>.
\<close>

definition load_labels ::
  "'c extern \<Rightarrow> ndarray \<Rightarrow> ndarray \<Rightarrow> string \<Rightarrow> state \<Rightarrow> (error + string) \<times> state" where
  "load_labels ext samples labels verbosity_str st =
     (let nsamples = int (shape0 samples)
      in case encode_ascii verbosity_str of
           Inl e \<Rightarrow> (Inl e, st)
         | Inr verbosity \<Rightarrow>
             (case release_labels st of
                Inl e \<Rightarrow> (Inl e, st)
              | Inr st1 \<Rightarrow>
                  (case to_vector ext labels 0 (mem st1) of
                     (Inl e, h) \<Rightarrow>
                       (case free_vector (g_rules st1) (g_nrules st1) h of
                          Inl e' \<Rightarrow> (Inl e', st1\<lparr>mem := h\<rparr>)
                        | Inr h1 \<Rightarrow> (Inl e, st1\<lparr>mem := h1\<rparr>))
                   | (Inr (vectors, nsamples_chk), h) \<Rightarrow>
                       let st2 = st1\<lparr>g_labels_vecs := Some vectors, mem := h\<rparr>
                       in if nsamples_chk \<noteq> nsamples then
                            (case free_vector (g_labels_vecs st2) 2 (mem st2) of
                               Inl e \<Rightarrow> (Inl e, st2)
                             | Inr h1 \<Rightarrow>
                                 (case free_vector (g_rules st2) (g_nrules st2) h1 of
                                    Inl e \<Rightarrow> (Inl e, st2\<lparr>mem := h1\<rparr>)
                                  | Inr h2 \<Rightarrow>
                                      (Inl (ValueError (Fit_sample_count nsamples_chk nsamples)),
                                       st2\<lparr>mem := h2\<rparr>)))
                          else
                            (case records_at (mem st2) (Some vectors) of
                               None \<Rightarrow> (Inl Unspecified, st2)
                             | Some vs \<Rightarrow>
                                 (case name_labels vs of
                                    None \<Rightarrow> (Inl Unspecified, st2)
                                  | Some vs' \<Rightarrow>
                                      (Inr verbosity,
                                       st2\<lparr>mem := (mem st2)[vectors := Some (Records vs')]\<rparr>))))))"

text \<open>
  Lines 239 to 240 and, with the assignments, lines 246 to 252: the label records and
  the pool are freed.
\<close>

definition free_labels_and_rules :: "state \<Rightarrow> error + heap" where
  "free_labels_and_rules st =
     (case free_vector (g_labels_vecs st) 2 (mem st) of
        Inl e \<Rightarrow> Inl e
      | Inr h \<Rightarrow> free_vector (g_rules st) (g_nrules st) h)"

text \<open>Lines 231 to 233: a minority record left by an earlier session is released.\<close>

definition release_minor :: "state \<Rightarrow> error + state" where
  "release_minor st =
     (if g_minor st \<noteq> None then
        (case free_vector (g_minor st) 1 (mem st) of
           Inl e \<Rightarrow> Inl e
         | Inr h \<Rightarrow> Inr (st\<lparr>g_minor := None, mem := h\<rparr>))
      else Inr st)"

text \<open>
  Lines 231 to 256: the minority record of an earlier session is released, a new one is
  allocated and filled by \<open>minority\<close>, and the native session is started. A failure of
  \<open>minority\<close> frees the labels and the pool and raises; a return value of -1 from
  \<open>run_corels_begin\<close> frees the three arrays, resets the module variables and returns
  \<open>False\<close>.
\<close>

definition start_session ::
  "'c extern \<Rightarrow> 'c \<Rightarrow> ndarray \<Rightarrow> string \<Rightarrow> state \<Rightarrow> (error + bool) \<times> state" where
  "start_session ext cfg samples verbosity st =
     (let nsamples = shape0 samples
      in case release_minor st of
           Inl e \<Rightarrow> (Inl e, st)
         | Inr st1 \<Rightarrow>
             (case (records_at (mem st1) (g_rules st1),
                    records_at (mem st1) (g_labels_vecs st1)) of
                (Some rs, Some ls) \<Rightarrow>
                  (case minority ext cfg rs (g_nrules st1) ls nsamples of
                     (mr, m) \<Rightarrow>
                       (case malloc (Records [m]) (mem st1) of
                          (p, h) \<Rightarrow>
                            let st2 = st1\<lparr>g_minor := Some p, mem := h\<rparr>
                            in if mr \<noteq> 0 then
                                 (case free_labels_and_rules st2 of
                                    Inl e \<Rightarrow> (Inl e, st2)
                                  | Inr h1 \<Rightarrow> (Inl MemoryError, st2\<lparr>mem := h1\<rparr>))
                               else if run_corels_begin ext cfg verbosity (g_nrules st2) nsamples
                                         rs ls m = - 1 then
                                 (case free_vector (g_labels_vecs st2) 2 (mem st2) of
                                    Inl e \<Rightarrow> (Inl e, st2)
                                  | Inr h1 \<Rightarrow>
                                      (case free_vector (g_minor st2) 1 h1 of
                                         Inl e \<Rightarrow> (Inl e, st2\<lparr>g_labels_vecs := None, mem := h1\<rparr>)
                                       | Inr h2 \<Rightarrow>
                                           (case free_vector (g_rules st2) (g_nrules st2) h2 of
                                              Inl e \<Rightarrow>
                                                (Inl e,
                                                 st2\<lparr>g_labels_vecs := None, g_minor := None,
                                                     mem := h2\<rparr>)
                                            | Inr h3 \<Rightarrow>
                                                (Inr False,
                                                 st2\<lparr>g_rules := None, g_labels_vecs := None,
                                                     g_minor := None, g_nrules := 0,
                                                     mem := h3\<rparr>))))
                               else (Inr True, st2)))
              | _ \<Rightarrow> (Inl Unspecified, st1)))"

text \<open>Lines 168 to 204 together: from the samples to the mined pool.\<close>

definition build_pool ::
  "'c extern \<Rightarrow> ndarray \<Rightarrow> string list \<Rightarrow> 'c \<Rightarrow> state \<Rightarrow> (error + unit) \<times> state" where
  "build_pool ext samples features cfg st =
     (case load_samples ext samples features st of
        (Inl e, st1) \<Rightarrow> (Inl e, st1)
      | (Inr (samples_vecs, nfeatures, features_vec), st1) \<Rightarrow>
          mine_pool ext cfg samples samples_vecs nfeatures features_vec st1)"

text \<open>
  \<open>fit_wrap_begin\<close>, lines 158 to 256: the value returned or the exception raised, and
  the state it leaves.
\<close>

definition fit_wrap_begin ::
  "'c extern \<Rightarrow> ndarray \<Rightarrow> ndarray \<Rightarrow> string list \<Rightarrow> 'c \<Rightarrow> string \<Rightarrow> state \<Rightarrow>
     (error + bool) \<times> state" where
  "fit_wrap_begin ext samples labels features cfg verbosity_str st =
     (case build_pool ext samples features cfg st of
        (Inl e, st2) \<Rightarrow> (Inl e, st2)
      | (Inr u, st2) \<Rightarrow>
          (case load_labels ext samples labels verbosity_str st2 of
             (Inl e, st3) \<Rightarrow> (Inl e, st3)
           | (Inr verbosity, st3) \<Rightarrow> start_session ext cfg samples verbosity st3))"

subsection \<open>The session end \<open>fit_wrap_end\<close>\<close>

text \<open>
  Lines 277 to 279: the literal ids of one pool record, \<open>ids[0]\<close> to
  \<open>ids[cardinality - 1]\<close>.
\<close>

definition antecedents_of :: "rule_t \<Rightarrow> error + int list" where
  "antecedents_of r =
     (if cardinality r \<le> 0 then Inr []
      else
        (case ids r of
           None \<Rightarrow> Inl Unspecified
         | Some ks \<Rightarrow>
             if cardinality r \<le> int (length ks) then Inr (take (nat (cardinality r)) ks)
             else Inl Unspecified))"

text \<open>
  Lines 275 to 281, the loop over the steps \<open>i\<close> of the optimal path: step \<open>i\<close> gives
  the rule with the literals of \<open>rules[rulelist[i]]\<close> and the class \<open>classes[i]\<close>. A
  read through a pointer that is \<open>NULL\<close> or not live, or outside an array, is
  \<open>Unspecified\<close>.
\<close>

fun path_rules ::
  "rule_t list option \<Rightarrow> int list option \<Rightarrow> int list \<Rightarrow> nat list \<Rightarrow> error + rule list" where
  "path_rules pool rulelist classes [] = Inr []"
| "path_rules pool rulelist classes (i # steps) =
     (case (pool, rulelist) of
        (Some rs, Some rl) \<Rightarrow>
          if i < length rl \<and> 0 \<le> rl ! i \<and> rl ! i < int (length rs) \<and> i < length classes then
            (case antecedents_of (rs ! nat (rl ! i)) of
               Inl e \<Rightarrow> Inl e
             | Inr ks \<Rightarrow>
                 (case path_rules pool rulelist classes steps of
                    Inl e \<Rightarrow> Inl e
                  | Inr out \<Rightarrow> Inr (\<lparr>antecedents = ks, prediction = classes ! i\<rparr> # out)))
          else Inl Unspecified
      | _ \<Rightarrow> Inl Unspecified)"

text \<open>
  Lines 273 to 286, the list \<open>r_out\<close>: empty when \<open>classes\<close> is \<open>NULL\<close>; else the rules
  of the path followed by the entry
  \<open>{'antecedents': [0], 'prediction': classes[rulelist_size]}\<close>.
\<close>

definition r_out_of ::
  "rule_t list option \<Rightarrow> int list option \<Rightarrow> int \<Rightarrow> int list option \<Rightarrow> error + rule list" where
  "r_out_of pool rulelist rulelist_size classes =
     (case classes of
        None \<Rightarrow> Inr []
      | Some cs \<Rightarrow>
          (case path_rules pool rulelist cs [0..<nat rulelist_size] of
             Inl e \<Rightarrow> Inl e
           | Inr out \<Rightarrow>
               if 0 \<le> rulelist_size \<and> rulelist_size < int (length cs) then
                 Inr (out @ [\<lparr>antecedents = [0], prediction = cs ! nat rulelist_size\<rparr>])
               else Inl Unspecified))"

text \<open>
  \<open>fit_wrap_end\<close>, lines 262 to 296. The first argument is what \<open>run_corels_end\<close>
  returns and stores: the accuracy (of any type \<open>'a\<close>, it is only handed on), the array
  \<open>rulelist\<close>, \<open>rulelist_size\<close> and the array \<open>classes\<close>. After the list is built,
  the three arrays of the session are freed and the module variables reset.
\<close>

definition fit_wrap_end ::
  "'a \<times> int list option \<times> int \<times> int list option \<Rightarrow> state \<Rightarrow> (error + ('a \<times> rule list)) \<times> state" where
  "fit_wrap_end ended st =
     (case ended of
        (acc, rulelist, rulelist_size, classes) \<Rightarrow>
          (case r_out_of (records_at (mem st) (g_rules st)) rulelist rulelist_size classes of
             Inl e \<Rightarrow> (Inl e, st)
           | Inr r_out \<Rightarrow>
               (case free_vector (g_labels_vecs st) 2 (mem st) of
                  Inl e \<Rightarrow> (Inl e, st)
                | Inr h1 \<Rightarrow>
                    (case free_vector (g_minor st) 1 h1 of
                       Inl e \<Rightarrow> (Inl e, st\<lparr>g_labels_vecs := None, mem := h1\<rparr>)
                     | Inr h2 \<Rightarrow>
                         (case free_vector (g_rules st) (g_nrules st) h2 of
                            Inl e \<Rightarrow>
                              (Inl e, st\<lparr>g_labels_vecs := None, g_minor := None, mem := h2\<rparr>)
                          | Inr h3 \<Rightarrow>
                              (Inr (acc, r_out),
                               st\<lparr>g_rules := None, g_labels_vecs := None, g_minor := None,
                                   g_nrules := 0, mem := h3\<rparr>))))))"

text \<open>
  The literal ids of a pool record as a list: the first \<open>cardinality\<close> entries of
  \<open>ids\<close>.
\<close>

definition literal_ids :: "rule_t \<Rightarrow> int list" where
  "literal_ids r = (case ids r of None \<Rightarrow> [] | Some ks \<Rightarrow> take (nat (cardinality r)) ks)"

text \<open>A state with no session: the module variables as lines 153 to 156 set them.\<close>

definition initial :: state where
  "initial = \<lparr>g_rules = None, g_labels_vecs = None, g_minor = None, g_nrules = 0, mem = []\<rparr>"

subsection \<open>A concrete session\<close>

text \<open>
  The example scenario of the specification: the four samples \<open>X4\<close>, labels equal to
  feature 1 (one row per class), and native functions that behave as in a run that mines
  the single antecedent \<open>feature_1 = 1\<close>. \<open>ascii_to_vector\<close> sets a zero \<open>*ncount\<close> to
  the length of the line and refuses a line of another length. The states \<open>pooled\<close>,
  \<open>labelled\<close> and \<open>active\<close> are the ones this run leaves after line 204, after line
  229 and at its end.
\<close>

definition labels4 :: ndarray where
  "labels4 = of_rows 4 [[1, 0, 1, 0], [0, 1, 0, 1]]"

definition feature_1 :: rule_t where
  "feature_1 = \<lparr>truthtable = [False, True, False, True], label = Some ''{feature_1}'',
      cardinality = 1, ids = Some [2], support = 2\<rparr>"

definition label_0 :: rule_t where
  "label_0 = \<lparr>truthtable = [True, False, True, False], label = Some ''label=0'',
      cardinality = 1, ids = None, support = 2\<rparr>"

definition label_1 :: rule_t where
  "label_1 = \<lparr>truthtable = [False, True, False, True], label = Some ''label=1'',
      cardinality = 1, ids = None, support = 2\<rparr>"

definition no_minority :: rule_t where
  "no_minority = \<lparr>truthtable = [False, False, False, False], label = None,
      cardinality = 1, ids = None, support = 0\<rparr>"

definition native :: "unit extern" where
  "native =
     \<lparr>malloc_ok = (\<lambda>k. True),
      ascii_to_vector = (\<lambda>line len ncount.
        if ncount = 0 \<or> ncount = int len
        then Some (int len, int (length (filter (\<lambda>ch. ch = CHR ''1'') line)),
                   map (\<lambda>ch. ch = CHR ''1'') line)
        else None),
      mine_rules = (\<lambda>cfg fs svs nfeatures nsamples. (1, Some [feature_1])),
      minority = (\<lambda>cfg rs n ls nsamples. (0, no_minority)),
      run_corels_begin = (\<lambda>cfg verbosity n nsamples rs ls m. 0)\<rparr>"

definition pooled :: state where
  "pooled = \<lparr>g_rules = Some 2, g_labels_vecs = None, g_minor = None, g_nrules = 1,
      mem = [None, None, Some (Records [feature_1])]\<rparr>"

definition labelled :: state where
  "labelled = \<lparr>g_rules = Some 2, g_labels_vecs = Some 3, g_minor = None, g_nrules = 1,
      mem = [None, None, Some (Records [feature_1]), Some (Records [label_0, label_1])]\<rparr>"

definition active :: state where
  "active = \<lparr>g_rules = Some 2, g_labels_vecs = Some 3, g_minor = Some 4, g_nrules = 1,
      mem = [None, None, Some (Records [feature_1]), Some (Records [label_0, label_1]),
             Some (Records [no_minority])]\<rparr>"

text \<open>Labels with three columns for the four samples.\<close>

definition labels3 :: ndarray where
  "labels3 = of_rows 3 [[1, 0, 1], [0, 1, 0]]"

text \<open>The same native functions, with a session start that fails.\<close>

definition native_no_session :: "unit extern" where
  "native_no_session =
     native\<lparr>run_corels_begin := (\<lambda>cfg verbosity n nsamples rs ls m. - 1)\<rparr>"

section \<open>Properties of \<open>predict_wrap\<close>\<close>

subsection \<open>The loops compute the first match\<close>

lemma as_int_in_range: "- (2 ^ 31) \<le> v \<Longrightarrow> v < 2 ^ 31 \<Longrightarrow> as_int v = Inr v"
  by (simp add: as_int_def)




lemma uint_ne_0: "(uint (w :: 8 word) \<noteq> 0) = (w \<noteq> 0)"
  by (simp add: uint_0_iff)





lemma fold_update_upt:
  "m \<le> length out \<Longrightarrow>
   fold (\<lambda>s acc. acc[s := f s]) [0..<m] out = map f [0..<m] @ drop m out"
proof (induction m)
  case 0
  then show ?case by simp
next
  case (Suc m)
  then have "m < length out" by simp
  then have "drop m out = out ! m # drop (Suc m) out"
    by (simp add: Cons_nth_drop_Suc)
  with Suc show ?case
    by (simp add: list_update_append)
qed






text \<open>
  The literal-index policy on a small case: two features, a first rule on feature 5 that
  can never match, a second rule for \<open>feature_0 = 1\<close> and \<open>feature_1 = 0\<close>.
\<close>

lemma predict_wrap_skips_wide_rule:
  "predict_wrap 0 X4 [''feature_0'', ''feature_1'', ''default'']
     [\<lparr>antecedents = [5], prediction = 1\<rparr>,
      \<lparr>antecedents = [1, - 2], prediction = 1\<rparr>,
      \<lparr>antecedents = [0], prediction = 0\<rparr>] = Inr [0, 0, 1, 0]"
  by code_simp

subsection \<open>A rule list with only the default rule\<close>

lemma sample_loop_no_rules:
  "uint8_class d \<Longrightarrow>
   sample_loop X [] d ss nr out =
     Inr (if nr = 1 then fold (\<lambda>s acc. acc[s := d]) ss out else out)"
  by (induction ss arbitrary: nr out) (simp_all add: setitem_def uint8_class_def)

lemma predict_wrap_default_only:
  assumes "int (shape1 X) = int (length features) - 1" and "uint8_class (prediction r)"
  shows "predict_wrap next_rule0 X features [r] =
           Inr (replicate (shape0 X) (if next_rule0 = 1 then prediction r else 0))"
proof -
  have "fold (\<lambda>s acc. acc[s := prediction r]) [0..<shape0 X] (replicate (shape0 X) 0) =
      replicate (shape0 X) (prediction r)"
    by (simp add: fold_update_upt map_replicate_const)
  with assms show ?thesis
    by (simp add: predict_wrap_def Let_def as_int_def uint8_class_def sample_loop_no_rules)
qed

text \<open>
  So the classes returned for a rule list with the default rule alone depend on
  \<open>next_rule0\<close>: the default class if it is 1, and 0 for every other value.
\<close>

lemma predict_wrap_default_only_cases:
  assumes "int (shape1 X) = int (length features) - 1" and "uint8_class (prediction r)"
  shows "next_rule0 = 1 \<Longrightarrow>
           predict_wrap next_rule0 X features [r] = Inr (replicate (shape0 X) (prediction r))"
    and "next_rule0 \<noteq> 1 \<Longrightarrow>
           predict_wrap next_rule0 X features [r] = Inr (replicate (shape0 X) 0)"
  using predict_wrap_default_only [OF assms] by simp_all

text \<open>
  Claim C4. With the default rule alone the loop over the rules has no iteration, so
  \<open>next_rule\<close> is read at line 89 without ever having been assigned; unless it happens
  to hold 1, the default class 1 of this rule list is not stored and the sample gets 0.
\<close>

theorem predict_wrap_default_only_zero:
  "predict_wrap 0 (of_rows 1 [[0]]) [''feature_0'', ''default'']
     [\<lparr>antecedents = [0], prediction = 1\<rparr>] = Inr [0]"
  by (simp add: predict_wrap_def of_rows_def as_int_def setitem_def)

text \<open>
  Claim C5. On the same input, two calls that find different values in the unassigned
  \<open>next_rule\<close> return different predictions.
\<close>

theorem predict_wrap_depends_on_next_rule:
  "predict_wrap 1 (of_rows 1 [[0]]) [''feature_0'', ''default'']
     [\<lparr>antecedents = [0], prediction = 1\<rparr>] \<noteq>
   predict_wrap 0 (of_rows 1 [[0]]) [''feature_0'', ''default'']
     [\<lparr>antecedents = [0], prediction = 1\<rparr>]"
  by (simp add: predict_wrap_def of_rows_def as_int_def setitem_def)

subsection \<open>The feature-count check and the empty rule list\<close>










section \<open>Properties of \<open>fit_wrap_begin\<close>\<close>

subsection \<open>Blocks and the encoder\<close>

lemma cell_append:
  "cell (h @ [x]) p = (if p < length h then cell h p else if p = length h then x else None)"
  by (simp add: cell_def nth_append)

lemma cell_update:
  "cell (h[p := x]) q = (if q = p \<and> p < length h then x else cell h q)"
  by (simp add: cell_def)

lemma cell_live_bound: "cell h p = Some b \<Longrightarrow> p < length h"
  by (simp add: cell_def split: if_splits)

lemma records_at_Some: "(records_at h (Some p) = Some rs) = (cell h p = Some (Records rs))"
  by (simp add: records_at_def split: option.splits block.splits)

lemma records_at_pointer: "records_at h vs = Some rs \<Longrightarrow> \<exists>p. vs = Some p \<and> cell h p = Some (Records rs)"
  by (cases vs) (simp_all add: records_at_def split: option.splits block.splits)

lemma free_vector_live:
  "cell h p = Some (Records rs) \<Longrightarrow> count \<le> int (length rs) \<Longrightarrow>
   free_vector (Some p) count h = Inr (h[p := None])"
  by (simp add: free_vector_def records_at_def)

lemma free_vector_error: "free_vector vs count h = Inl e \<Longrightarrow> e = Unspecified"
  by (auto simp add: free_vector_def split: option.splits if_splits)

lemma encode_rows_length:
  "encode_rows ext X rows n = Some (vs, m) \<Longrightarrow> length vs = length rows"
  by (induction rows arbitrary: n vs) (auto split: option.splits prod.splits)

lemma to_vector_cases:
  "to_vector ext X n h =
     (if \<not> malloc_ok ext (length h) then (Inl MemoryError, h)
      else
        (case encode_rows ext X [0..<shape0 X] n of
           None \<Rightarrow> (Inl (ValueError Could_not_load_samples), h @ [None])
         | Some (vs, m) \<Rightarrow> (Inr (length h, m), h @ [Some (Records vs)])))"
  by (simp add: to_vector_def malloc_def split: option.splits)

lemma cell_freed_block: "cell (h @ [None]) = cell h"
proof (rule ext)
  fix p
  show "cell (h @ [None]) p = cell h p"
    by (cases "p < length h") (simp_all add: cell_append, simp add: cell_def)
qed

lemma free_vector_new:
  "count \<le> int (length vs) \<Longrightarrow>
   free_vector (Some (length h)) count (h @ [Some (Records vs)]) = Inr (h @ [None])"
  by (simp add: free_vector_live [where rs = vs] cell_append)

lemma encode_features_error: "encode_features fs = Inl e \<Longrightarrow> e = UnicodeEncodeError"
  by (induction fs) (auto simp add: encode_ascii_def split: sum.splits if_splits)

lemma load_samples_rollback:
  assumes "load_samples ext samples features st = (Inl e, st1)"
    and "e = MemoryError \<or> (\<exists>m. e = ValueError m)"
  shows "g_rules st1 = g_rules st \<and> g_labels_vecs st1 = g_labels_vecs st \<and>
         g_minor st1 = g_minor st \<and> g_nrules st1 = g_nrules st \<and>
         cell (mem st1) = cell (mem st)"
proof (cases "malloc_ok ext (length (mem st))")
  case False
  with assms show ?thesis
    by (auto simp add: load_samples_def to_vector_cases)
next
  case ok: True
  show ?thesis
  proof (cases "encode_rows ext samples [0..<shape0 samples] 0")
    case None
    with ok assms show ?thesis
      by (auto simp add: load_samples_def to_vector_cases cell_freed_block)
  next
    case (Some found)
    obtain vs n where found: "found = (vs, n)" by (cases found)
    with Some have "length vs = shape0 samples"
      by (auto dest: encode_rows_length)
    then have free: "free_vector (Some (length (mem st))) (int (shape0 samples))
        (mem st @ [Some (Records vs)]) = Inr (mem st @ [None])"
      by (simp add: free_vector_new)
    from ok Some found assms free show ?thesis
      by (auto simp add: load_samples_def to_vector_cases Let_def malloc_def cell_freed_block
          dest: encode_features_error split: if_splits sum.splits)
  qed
qed

text \<open>The run of the concrete session, stage by stage and as a whole.\<close>

lemma native_run_stages:
  "build_pool native X4 [''feature_0'', ''feature_1''] () initial = (Inr (), pooled)"
  "load_labels native X4 labels4 ''rule'' pooled = (Inr ''rule'', labelled)"
  "start_session native () X4 ''rule'' labelled = (Inr True, active)"
  by code_simp+

lemma native_run:
  "fit_wrap_begin native X4 labels4 [''feature_0'', ''feature_1''] () ''rule'' initial =
     (Inr True, active)"
  by (simp add: fit_wrap_begin_def native_run_stages)

subsection \<open>Failures before the miner\<close>

text \<open>
  Claim C2, as amended. When \<open>fit_wrap_begin\<close> raises a \<open>ValueError\<close> or a
  \<open>MemoryError\<close> in lines 168 to 185, that is, because the samples could not be
  encoded, because more features were found than names were given, or because the table
  of names could not be allocated, then the exception is the result of the call, the
  four module variables are as before the call, and so is every block of the heap: the
  sample records of this call have been freed.
\<close>

theorem fit_wrap_begin_early_failure:
  assumes "load_samples ext samples features st = (Inl e, st1)"
    and "e = MemoryError \<or> (\<exists>m. e = ValueError m)"
  shows "fit_wrap_begin ext samples labels features cfg verbosity_str st = (Inl e, st1) \<and>
         g_rules st1 = g_rules st \<and> g_labels_vecs st1 = g_labels_vecs st \<and>
         g_minor st1 = g_minor st \<and> g_nrules st1 = g_nrules st \<and>
         cell (mem st1) = cell (mem st)"
proof -
  from assms(1) have "fit_wrap_begin ext samples labels features cfg verbosity_str st = (Inl e, st1)"
    by (simp add: fit_wrap_begin_def build_pool_def)
  with load_samples_rollback [OF assms] show ?thesis by simp
qed

text \<open>
  A call with one feature name for two features, made while a session is active: the
  session's variables and blocks are untouched.
\<close>

theorem fit_wrap_begin_early_failure_witness:
  "load_samples native X4 [''feature_0''] active =
     (Inl (ValueError (Fit_feature_count 2 1)), active\<lparr>mem := mem active @ [None]\<rparr>) \<and>
   fit_wrap_begin native X4 labels4 [''feature_0''] () ''rule'' active =
     (Inl (ValueError (Fit_feature_count 2 1)), active\<lparr>mem := mem active @ [None]\<rparr>) \<and>
   g_rules (active\<lparr>mem := mem active @ [None]\<rparr>) = Some 2 \<and>
   g_nrules (active\<lparr>mem := mem active @ [None]\<rparr>) = 1 \<and>
   cell (mem (active\<lparr>mem := mem active @ [None]\<rparr>)) = cell (mem active)"
proof -
  have failed: "load_samples native X4 [''feature_0''] active =
     (Inl (ValueError (Fit_feature_count 2 1)), active\<lparr>mem := mem active @ [None]\<rparr>)"
    by code_simp
  have kind: "ValueError (Fit_feature_count 2 1) = MemoryError \<or>
      (\<exists>m. ValueError (Fit_feature_count 2 1) = ValueError m)"
    by simp
  from fit_wrap_begin_early_failure [OF failed kind, of labels4 "()" "''rule''"] failed
  show ?thesis by (simp add: active_def)
qed

text \<open>
  Claim C2 as stated fails. A call made while a session is active releases the pool of
  that session before the miner runs (lines 187 to 190); when the miner then fails, the
  call raises and \<open>rules\<close> and \<open>nrules\<close> are not as before the call.
\<close>

theorem fit_wrap_begin_discards_previous_pool:
  "fst (fit_wrap_begin
          (native\<lparr>mine_rules := (\<lambda>cfg fs svs nfeatures nsamples. (- 1, None))\<rparr>)
          X4 labels4 [''feature_0'', ''feature_1''] () ''rule'' active) = Inl MemoryError \<and>
   g_rules active = Some 2 \<and>
   g_rules (snd (fit_wrap_begin
          (native\<lparr>mine_rules := (\<lambda>cfg fs svs nfeatures nsamples. (- 1, None))\<rparr>)
          X4 labels4 [''feature_0'', ''feature_1''] () ''rule'' active)) = None \<and>
   g_nrules active = 1 \<and>
   g_nrules (snd (fit_wrap_begin
          (native\<lparr>mine_rules := (\<lambda>cfg fs svs nfeatures nsamples. (- 1, None))\<rparr>)
          X4 labels4 [''feature_0'', ''feature_1''] () ''rule'' active)) = 0"
  by code_simp

text \<open>
  After the miner, the error paths of lines 216 to 224 and 238 to 241 free the pool and
  the label records and leave \<open>rules\<close> and \<open>labels_vecs\<close> pointing at the freed blocks
  (only the path of lines 245 to 254 resets them). Here the labels have three columns for
  four samples: blocks 2 and 3 are freed and still named by the module variables.
\<close>

lemma fit_wrap_begin_mismatch_dangling:
  "fit_wrap_begin native X4 labels3 [''feature_0'', ''feature_1''] () ''rule'' initial =
     (Inl (ValueError (Fit_sample_count 3 4)),
      \<lparr>g_rules = Some 2, g_labels_vecs = Some 3, g_minor = None, g_nrules = 1,
         mem = [None, None, None, None]\<rparr>)"
  by code_simp

text \<open>
  The next call, now with well-formed labels, reaches line 188 with \<open>rules\<close> not
  \<open>NULL\<close> and \<open>nrules\<close> not 0, and frees the block a second time.
\<close>

lemma fit_wrap_begin_after_mismatch:
  "fst (fit_wrap_begin native X4 labels4 [''feature_0'', ''feature_1''] () ''rule''
          \<lparr>g_rules = Some 2, g_labels_vecs = Some 3, g_minor = None, g_nrules = 1,
             mem = [None, None, None, None]\<rparr>) = Inl Unspecified"
  by code_simp

subsection \<open>The feature-count check\<close>

lemma to_vector_error:
  "to_vector ext X n h = (Inl e, h') \<Longrightarrow> e = MemoryError \<or> e = ValueError Could_not_load_samples"
  by (auto simp add: to_vector_cases split: if_splits option.splits)

lemma release_pool_error: "release_pool st = Inl e \<Longrightarrow> e = Unspecified"
  by (auto simp add: release_pool_def dest: free_vector_error split: if_splits sum.splits)

lemma release_labels_error: "release_labels st = Inl e \<Longrightarrow> e = Unspecified"
  by (auto simp add: release_labels_def dest: free_vector_error split: if_splits sum.splits)

lemma release_minor_error: "release_minor st = Inl e \<Longrightarrow> e = Unspecified"
  by (auto simp add: release_minor_def dest: free_vector_error split: if_splits sum.splits)

lemma mine_pool_error:
  "mine_pool ext cfg samples samples_vecs nfeatures features_vec st = (Inl e, st') \<Longrightarrow>
   e = MemoryError \<or> e = Unspecified"
  by (auto simp add: mine_pool_def Let_def
      dest: release_pool_error free_vector_error
      split: sum.splits option.splits prod.splits if_splits)

lemma load_labels_error:
  "load_labels ext samples labels verbosity_str st = (Inl e, st') \<Longrightarrow>
   e \<noteq> ValueError (Fit_feature_count a b)"
  by (auto simp add: load_labels_def Let_def encode_ascii_def
      dest: release_labels_error free_vector_error to_vector_error
      split: sum.splits option.splits prod.splits if_splits)

lemma free_labels_and_rules_error: "free_labels_and_rules st = Inl e \<Longrightarrow> e = Unspecified"
  by (auto simp add: free_labels_and_rules_def dest: free_vector_error split: sum.splits)

lemma start_session_error:
  "start_session ext cfg samples verbosity st = (Inl e, st') \<Longrightarrow>
   e = MemoryError \<or> e = Unspecified"
  by (auto simp add: start_session_def Let_def malloc_def
      dest: release_minor_error free_vector_error free_labels_and_rules_error
      split: sum.splits option.splits prod.splits if_splits)

lemma start_session_raises:
  "fst (start_session ext cfg samples verbosity st) = Inl e \<Longrightarrow>
   e = MemoryError \<or> e = Unspecified"
  by (cases "start_session ext cfg samples verbosity st") (auto dest: start_session_error)

lemma to_vector_result:
  assumes "to_vector ext X n h = (Inr (p, m), h')"
  shows "\<exists>vs. length vs = shape0 X \<and> p = length h \<and> h' = h @ [Some (Records vs)] \<and>
           encode_rows ext X [0..<shape0 X] n = Some (vs, m) \<and> malloc_ok ext (length h)"
  using assms
  by (auto simp add: to_vector_cases dest: encode_rows_length split: if_splits option.splits)

lemma load_samples_too_many_features:
  assumes enc: "to_vector ext samples 0 (mem st) = (Inr (samples_vecs, nfeatures), h)"
    and many: "int (length features) < nfeatures"
  shows "fst (load_samples ext samples features st) =
           Inl (ValueError (Fit_feature_count nfeatures (int (length features))))"
proof -
  from to_vector_result [OF enc] obtain vs where
    vs: "length vs = shape0 samples" "samples_vecs = length (mem st)"
      "h = mem st @ [Some (Records vs)]"
    by blast
  then have "free_vector (Some samples_vecs) (int (shape0 samples)) h = Inr (mem st @ [None])"
    by (simp add: free_vector_new)
  with enc many show ?thesis
    by (simp add: load_samples_def Let_def)
qed

lemma load_samples_enough_features:
  assumes enc: "to_vector ext samples 0 (mem st) = (Inr (samples_vecs, nfeatures), h)"
    and enough: "nfeatures \<le> int (length features)"
    and raised: "load_samples ext samples features st = (Inl e, st1)"
  shows "e = MemoryError \<or> e = UnicodeEncodeError"
proof -
  from to_vector_result [OF enc] obtain vs where
    vs: "length vs = shape0 samples" "samples_vecs = length (mem st)"
      "h = mem st @ [Some (Records vs)]"
    by blast
  then have "free_vector (Some samples_vecs) (int (shape0 samples)) h = Inr (mem st @ [None])"
    by (simp add: free_vector_new)
  with enc enough raised show ?thesis
    by (auto simp add: load_samples_def Let_def malloc_def
        dest: encode_features_error split: if_splits sum.splits)
qed

text \<open>
  Claim C8. Let the encoding of the samples succeed and find \<open>nfeatures\<close> features. If
  that exceeds the length of the list of feature names, \<open>fit_wrap_begin\<close> raises the
  \<open>ValueError\<close> of lines 175 and 176. If it does not, the call goes on: whatever
  happens later, that \<open>ValueError\<close> is not raised.
\<close>

theorem fit_wrap_begin_feature_count:
  assumes enc: "to_vector ext samples 0 (mem st) = (Inr (samples_vecs, nfeatures), h)"
  shows "(int (length features) < nfeatures \<longrightarrow>
            fst (fit_wrap_begin ext samples labels features cfg verbosity_str st) =
              Inl (ValueError (Fit_feature_count nfeatures (int (length features))))) \<and>
         (nfeatures \<le> int (length features) \<longrightarrow>
            (\<forall>a b. fst (fit_wrap_begin ext samples labels features cfg verbosity_str st) \<noteq>
              Inl (ValueError (Fit_feature_count a b))))"
proof (intro conjI impI allI)
  assume many: "int (length features) < nfeatures"
  obtain r st1 where ls: "load_samples ext samples features st = (r, st1)"
    by (cases "load_samples ext samples features st")
  with load_samples_too_many_features [OF enc many]
  have "r = Inl (ValueError (Fit_feature_count nfeatures (int (length features))))"
    by simp
  with ls show "fst (fit_wrap_begin ext samples labels features cfg verbosity_str st) =
      Inl (ValueError (Fit_feature_count nfeatures (int (length features))))"
    by (simp add: fit_wrap_begin_def build_pool_def)
next
  fix a b
  assume enough: "nfeatures \<le> int (length features)"
  show "fst (fit_wrap_begin ext samples labels features cfg verbosity_str st) \<noteq>
      Inl (ValueError (Fit_feature_count a b))"
  proof
    assume raised: "fst (fit_wrap_begin ext samples labels features cfg verbosity_str st) =
      Inl (ValueError (Fit_feature_count a b))"
    then show False
      by (auto simp add: fit_wrap_begin_def build_pool_def
          dest: load_samples_enough_features [OF enc enough] mine_pool_error
            load_labels_error start_session_raises
          split: prod.splits sum.splits)
  qed
qed

theorem fit_wrap_begin_feature_count_witness:
  "to_vector native X4 0 (mem initial) =
     (Inr (0, 2), [Some (Records
        [\<lparr>truthtable = [False, False], label = None, cardinality = 1, ids = None, support = 0\<rparr>,
         \<lparr>truthtable = [False, True], label = None, cardinality = 1, ids = None, support = 1\<rparr>,
         \<lparr>truthtable = [True, False], label = None, cardinality = 1, ids = None, support = 1\<rparr>,
         \<lparr>truthtable = [True, True], label = None, cardinality = 1, ids = None, support = 2\<rparr>])]) \<and>
   int (length [''feature_0'']) < 2 \<and>
   fst (fit_wrap_begin native X4 labels4 [''feature_0''] () ''rule'' initial) =
     Inl (ValueError (Fit_feature_count 2 1)) \<and>
   2 \<le> int (length [''feature_0'', ''feature_1'']) \<and>
   fst (fit_wrap_begin native X4 labels4 [''feature_0'', ''feature_1''] () ''rule'' initial) \<noteq>
     Inl (ValueError (Fit_feature_count 2 2))"
proof -
  have enc: "to_vector native X4 0 (mem initial) =
     (Inr (0, 2), [Some (Records
        [\<lparr>truthtable = [False, False], label = None, cardinality = 1, ids = None, support = 0\<rparr>,
         \<lparr>truthtable = [False, True], label = None, cardinality = 1, ids = None, support = 1\<rparr>,
         \<lparr>truthtable = [True, False], label = None, cardinality = 1, ids = None, support = 1\<rparr>,
         \<lparr>truthtable = [True, True], label = None, cardinality = 1, ids = None, support = 2\<rparr>])])"
    by code_simp
  from fit_wrap_begin_feature_count [OF enc, of "[''feature_0'']" labels4 "()" "''rule''"]
    fit_wrap_begin_feature_count [OF enc, of "[''feature_0'', ''feature_1'']" labels4 "()" "''rule''"]
    enc
  show ?thesis by simp
qed

subsection \<open>The sample-count check\<close>

lemma load_labels_mismatch:
  assumes verb: "encode_ascii verbosity_str = Inr verbosity"
    and rel: "release_labels st2 = Inr st3"
    and alloc: "malloc_ok ext (length (mem st3))"
    and enc: "encode_rows ext labels [0..<shape0 labels] 0 = Some (vs, nsamples_chk)"
    and mismatch: "nsamples_chk \<noteq> int (shape0 samples)"
    and two: "2 \<le> shape0 labels"
    and live: "records_at (mem st3) (g_rules st3) = Some rs"
    and count: "g_nrules st3 \<le> int (length rs)"
  shows "fst (load_labels ext samples labels verbosity_str st2) =
           Inl (ValueError (Fit_sample_count nsamples_chk (int (shape0 samples))))"
proof -
  from enc have len: "length vs = shape0 labels"
    by (auto dest: encode_rows_length)
  have tv: "to_vector ext labels 0 (mem st3) =
      (Inr (length (mem st3), nsamples_chk), mem st3 @ [Some (Records vs)])"
    using alloc enc by (simp add: to_vector_cases)
  from len two have free_labels:
    "free_vector (Some (length (mem st3))) 2 (mem st3 @ [Some (Records vs)]) =
       Inr (mem st3 @ [None])"
    by (simp add: free_vector_new)
  from records_at_pointer [OF live] obtain p where
    p: "g_rules st3 = Some p" "cell (mem st3) p = Some (Records rs)"
    by blast
  then have "cell (mem st3 @ [None]) p = Some (Records rs)"
    by (simp add: cell_freed_block)
  with count have free_rules:
    "free_vector (Some p) (g_nrules st3) (mem st3 @ [None]) = Inr ((mem st3 @ [None])[p := None])"
    by (simp add: free_vector_live)
  show ?thesis
    using verb rel tv mismatch free_labels free_rules p
    by (simp add: load_labels_def Let_def)
qed

text \<open>
  Claim C7. Let the call reach line 213: the pool is built, the verbosity string is
  ASCII and the label records of an earlier session, if any, are released. Let the
  encoding of the labels succeed on a matrix of at least two rows and leave in
  \<open>nsamples_chk\<close> a count other than the number of sample rows, and let \<open>nrules\<close> not
  exceed the pool (so that the frees of lines 221 and 222 stay inside their arrays). Then
  \<open>fit_wrap_begin\<close> raises the \<open>ValueError\<close> of lines 223 and 224, which names both
  counts.
\<close>

theorem fit_wrap_begin_sample_count:
  assumes pool: "build_pool ext samples features cfg st = (Inr (), st2)"
    and verb: "encode_ascii verbosity_str = Inr verbosity"
    and rel: "release_labels st2 = Inr st3"
    and alloc: "malloc_ok ext (length (mem st3))"
    and enc: "encode_rows ext labels [0..<shape0 labels] 0 = Some (vs, nsamples_chk)"
    and mismatch: "nsamples_chk \<noteq> int (shape0 samples)"
    and two: "2 \<le> shape0 labels"
    and live: "records_at (mem st3) (g_rules st3) = Some rs"
    and count: "g_nrules st3 \<le> int (length rs)"
  shows "fst (fit_wrap_begin ext samples labels features cfg verbosity_str st) =
           Inl (ValueError (Fit_sample_count nsamples_chk (int (shape0 samples))))"
proof -
  obtain r st' where ll: "load_labels ext samples labels verbosity_str st2 = (r, st')"
    by (cases "load_labels ext samples labels verbosity_str st2")
  with load_labels_mismatch [OF verb rel alloc enc mismatch two live count]
  have "r = Inl (ValueError (Fit_sample_count nsamples_chk (int (shape0 samples))))"
    by simp
  with pool ll show ?thesis
    by (simp add: fit_wrap_begin_def)
qed

theorem fit_wrap_begin_sample_count_witness:
  "build_pool native X4 [''feature_0'', ''feature_1''] () initial = (Inr (), pooled) \<and>
   encode_ascii ''rule'' = Inr ''rule'' \<and>
   release_labels pooled = Inr pooled \<and>
   malloc_ok native (length (mem pooled)) \<and>
   encode_rows native labels3 [0..<shape0 labels3] 0 =
     Some ([\<lparr>truthtable = [True, False, True], label = None, cardinality = 1, ids = None,
              support = 2\<rparr>,
            \<lparr>truthtable = [False, True, False], label = None, cardinality = 1, ids = None,
              support = 1\<rparr>], 3) \<and>
   3 \<noteq> int (shape0 X4) \<and>
   2 \<le> shape0 labels3 \<and>
   records_at (mem pooled) (g_rules pooled) = Some [feature_1] \<and>
   g_nrules pooled \<le> int (length [feature_1]) \<and>
   fst (fit_wrap_begin native X4 labels3 [''feature_0'', ''feature_1''] () ''rule'' initial) =
     Inl (ValueError (Fit_sample_count 3 4))"
proof -
  have pool: "build_pool native X4 [''feature_0'', ''feature_1''] () initial = (Inr (), pooled)"
    by code_simp
  have verb: "encode_ascii ''rule'' = Inr ''rule''"
    by code_simp
  have rel: "release_labels pooled = Inr pooled"
    by code_simp
  have alloc: "malloc_ok native (length (mem pooled))"
    by code_simp
  have enc: "encode_rows native labels3 [0..<shape0 labels3] 0 =
     Some ([\<lparr>truthtable = [True, False, True], label = None, cardinality = 1, ids = None,
              support = 2\<rparr>,
            \<lparr>truthtable = [False, True, False], label = None, cardinality = 1, ids = None,
              support = 1\<rparr>], 3)"
    by code_simp
  have mismatch: "3 \<noteq> int (shape0 X4)"
    by code_simp
  have two: "2 \<le> shape0 labels3"
    by code_simp
  have live: "records_at (mem pooled) (g_rules pooled) = Some [feature_1]"
    by code_simp
  have count: "g_nrules pooled \<le> int (length [feature_1])"
    by code_simp
  have rows: "shape0 X4 = 4"
    by (simp add: X4_def of_rows_def)
  from fit_wrap_begin_sample_count [OF pool verb rel alloc enc mismatch two live count]
    pool verb rel alloc enc mismatch two live count
  show ?thesis by (simp add: rows)
qed

text \<open>
  Seen from the result: whenever \<open>fit_wrap_begin\<close> returns a value, the labels were
  encoded and their count is the number of sample rows.
\<close>

lemma load_labels_returns:
  "load_labels ext samples labels verbosity_str st = (Inr verbosity, st') \<Longrightarrow>
   \<exists>vs. encode_rows ext labels [0..<shape0 labels] 0 = Some (vs, int (shape0 samples))"
  by (auto simp add: load_labels_def Let_def to_vector_cases
      split: sum.splits if_splits option.splits prod.splits)

lemma fit_wrap_begin_returns_only_on_equal_counts:
  assumes "fst (fit_wrap_begin ext samples labels features cfg verbosity_str st) = Inr b"
  shows "\<exists>vs. encode_rows ext labels [0..<shape0 labels] 0 = Some (vs, int (shape0 samples))"
  using assms
  by (auto simp add: fit_wrap_begin_def dest: load_labels_returns split: prod.splits sum.splits)

subsection \<open>A session start that fails\<close>

lemma start_session_begin_failure:
  assumes rel: "release_minor st3 = Inr st4"
    and live: "records_at (mem st4) (g_rules st4) = Some rs"
    and count: "g_nrules st4 \<le> int (length rs)"
    and lab: "records_at (mem st4) (g_labels_vecs st4) = Some ls"
    and two: "2 \<le> length ls"
    and apart: "g_rules st4 \<noteq> g_labels_vecs st4"
    and mr: "fst (minority ext cfg rs (g_nrules st4) ls (shape0 samples)) = 0"
    and rb: "run_corels_begin ext cfg verbosity (g_nrules st4) (shape0 samples) rs ls
               (snd (minority ext cfg rs (g_nrules st4) ls (shape0 samples))) = - 1"
  shows "\<exists>h. start_session ext cfg samples verbosity st3 =
           (Inr False,
            st4\<lparr>g_rules := None, g_labels_vecs := None, g_minor := None, g_nrules := 0,
                mem := h\<rparr>) \<and>
           length h = Suc (length (mem st4)) \<and>
           cell h = (\<lambda>q. if g_rules st4 = Some q \<or> g_labels_vecs st4 = Some q then None
                          else cell (mem st4) q)"
proof -
  let ?m = "snd (minority ext cfg rs (g_nrules st4) ls (shape0 samples))"
  let ?n = "length (mem st4)"
  let ?h = "mem st4 @ [Some (Records [?m])]"
  from records_at_pointer [OF live] obtain pr where
    pr: "g_rules st4 = Some pr" "cell (mem st4) pr = Some (Records rs)"
    by blast
  from records_at_pointer [OF lab] obtain pl where
    pl: "g_labels_vecs st4 = Some pl" "cell (mem st4) pl = Some (Records ls)"
    by blast
  from pr pl apart have ne: "pr \<noteq> pl" by simp
  from pr have pr_lt: "pr < ?n" by (auto dest: cell_live_bound)
  from pl have pl_lt: "pl < ?n" by (auto dest: cell_live_bound)
  have "cell ?h pl = Some (Records ls)"
    using pl pl_lt by (simp add: cell_append)
  with two have f1: "free_vector (Some pl) 2 ?h = Inr (?h[pl := None])"
    by (simp add: free_vector_live)
  have "cell (?h[pl := None]) ?n = Some (Records [?m])"
    using pl_lt by (simp add: cell_update cell_append)
  then have f2: "free_vector (Some ?n) 1 (?h[pl := None]) = Inr (?h[pl := None, ?n := None])"
    by (simp add: free_vector_live)
  have "cell (?h[pl := None, ?n := None]) pr = Some (Records rs)"
    using pr pr_lt ne by (simp add: cell_update cell_append)
  with count have f3: "free_vector (Some pr) (g_nrules st4) (?h[pl := None, ?n := None]) =
      Inr (?h[pl := None, ?n := None, pr := None])"
    by (simp add: free_vector_live)
  obtain mr0 m0 where mino: "minority ext cfg rs (g_nrules st4) ls (shape0 samples) = (mr0, m0)"
    by (cases "minority ext cfg rs (g_nrules st4) ls (shape0 samples)")
  with mr rb have mr0: "mr0 = 0"
    and rb0: "run_corels_begin ext cfg verbosity (g_nrules st4) (shape0 samples) rs ls m0 = - 1"
    by simp_all
  from mino have m0: "?m = m0" by simp
  have returned: "start_session ext cfg samples verbosity st3 =
      (Inr False,
       st4\<lparr>g_rules := None, g_labels_vecs := None, g_minor := None, g_nrules := 0,
           mem := ?h[pl := None, ?n := None, pr := None]\<rparr>)"
    using rel live lab pr(1) pl(1) mino mr0 rb0 f1 f2 f3
    by (simp add: start_session_def Let_def malloc_def m0)
  have size: "length (?h[pl := None, ?n := None, pr := None]) = Suc ?n"
    by simp
  have cells: "cell (?h[pl := None, ?n := None, pr := None]) =
      (\<lambda>q. if g_rules st4 = Some q \<or> g_labels_vecs st4 = Some q then None
            else cell (mem st4) q)"
  proof (rule ext)
    fix q
    have beyond: "\<not> q < ?n \<Longrightarrow> cell (mem st4) q = None"
      by (simp add: cell_def)
    show "cell (?h[pl := None, ?n := None, pr := None]) q =
        (if g_rules st4 = Some q \<or> g_labels_vecs st4 = Some q then None
         else cell (mem st4) q)"
      using pr(1) pl(1) pr_lt pl_lt beyond
      by (auto simp add: cell_update cell_append)
  qed
  from returned size cells show ?thesis by blast
qed

text \<open>
  Claim C9, as amended. Let the call reach line 243 (the pool is built, the labels are
  loaded, the minority record of an earlier session, if any, is released and \<open>minority\<close>
  returns 0), with the pool and the label records live, distinct and no shorter than the
  counts they are freed with. If \<open>run_corels_begin\<close> returns -1, \<open>fit_wrap_begin\<close>
  raises nothing: it returns \<open>False\<close>; \<open>rules\<close>, \<open>labels_vecs\<close> and \<open>minor\<close> are
  \<open>NULL\<close> and \<open>nrules\<close> is 0; and the heap is the one of line 231 with the pool and the
  label records freed: the one block allocated since, the minority record, is freed too,
  and every other block is as it was.
\<close>

theorem fit_wrap_begin_session_failure:
  assumes pool: "build_pool ext samples features cfg st = (Inr (), st2)"
    and labs: "load_labels ext samples labels verbosity_str st2 = (Inr verbosity, st3)"
    and rel: "release_minor st3 = Inr st4"
    and live: "records_at (mem st4) (g_rules st4) = Some rs"
    and count: "g_nrules st4 \<le> int (length rs)"
    and lab: "records_at (mem st4) (g_labels_vecs st4) = Some ls"
    and two: "2 \<le> length ls"
    and apart: "g_rules st4 \<noteq> g_labels_vecs st4"
    and mr: "fst (minority ext cfg rs (g_nrules st4) ls (shape0 samples)) = 0"
    and rb: "run_corels_begin ext cfg verbosity (g_nrules st4) (shape0 samples) rs ls
               (snd (minority ext cfg rs (g_nrules st4) ls (shape0 samples))) = - 1"
  shows "fst (fit_wrap_begin ext samples labels features cfg verbosity_str st) = Inr False \<and>
         g_rules (snd (fit_wrap_begin ext samples labels features cfg verbosity_str st)) = None \<and>
         g_labels_vecs (snd (fit_wrap_begin ext samples labels features cfg verbosity_str st)) = None \<and>
         g_minor (snd (fit_wrap_begin ext samples labels features cfg verbosity_str st)) = None \<and>
         g_nrules (snd (fit_wrap_begin ext samples labels features cfg verbosity_str st)) = 0 \<and>
         length (mem (snd (fit_wrap_begin ext samples labels features cfg verbosity_str st))) =
           Suc (length (mem st4)) \<and>
         cell (mem (snd (fit_wrap_begin ext samples labels features cfg verbosity_str st)))
           (length (mem st4)) = None \<and>
         cell (mem (snd (fit_wrap_begin ext samples labels features cfg verbosity_str st))) =
           (\<lambda>q. if g_rules st4 = Some q \<or> g_labels_vecs st4 = Some q then None
                 else cell (mem st4) q)"
proof -
  from start_session_begin_failure [OF rel live count lab two apart mr rb] obtain h where
    h: "start_session ext cfg samples verbosity st3 =
       (Inr False,
        st4\<lparr>g_rules := None, g_labels_vecs := None, g_minor := None, g_nrules := 0, mem := h\<rparr>)"
      "length h = Suc (length (mem st4))"
      "cell h = (\<lambda>q. if g_rules st4 = Some q \<or> g_labels_vecs st4 = Some q then None
                     else cell (mem st4) q)"
    by blast
  from pool labs h(1) have
    "fit_wrap_begin ext samples labels features cfg verbosity_str st =
       (Inr False,
        st4\<lparr>g_rules := None, g_labels_vecs := None, g_minor := None, g_nrules := 0, mem := h\<rparr>)"
    by (simp add: fit_wrap_begin_def)
  moreover have "cell (mem st4) (length (mem st4)) = None"
    by (simp add: cell_def)
  ultimately show ?thesis
    using h(2,3) by simp
qed

theorem fit_wrap_begin_session_failure_witness:
  "build_pool native_no_session X4 [''feature_0'', ''feature_1''] () initial = (Inr (), pooled) \<and>
   load_labels native_no_session X4 labels4 ''rule'' pooled = (Inr ''rule'', labelled) \<and>
   release_minor labelled = Inr labelled \<and>
   records_at (mem labelled) (g_rules labelled) = Some [feature_1] \<and>
   g_nrules labelled \<le> int (length [feature_1]) \<and>
   records_at (mem labelled) (g_labels_vecs labelled) = Some [label_0, label_1] \<and>
   2 \<le> length [label_0, label_1] \<and>
   g_rules labelled \<noteq> g_labels_vecs labelled \<and>
   fst (minority native_no_session () [feature_1] (g_nrules labelled) [label_0, label_1]
          (shape0 X4)) = 0 \<and>
   run_corels_begin native_no_session () ''rule'' (g_nrules labelled) (shape0 X4) [feature_1]
     [label_0, label_1]
     (snd (minority native_no_session () [feature_1] (g_nrules labelled) [label_0, label_1]
          (shape0 X4))) = - 1 \<and>
   fst (fit_wrap_begin native_no_session X4 labels4 [''feature_0'', ''feature_1''] () ''rule''
          initial) = Inr False \<and>
   g_rules (snd (fit_wrap_begin native_no_session X4 labels4 [''feature_0'', ''feature_1''] ()
          ''rule'' initial)) = None \<and>
   length (mem (snd (fit_wrap_begin native_no_session X4 labels4 [''feature_0'', ''feature_1'']
          () ''rule'' initial))) = Suc (length (mem labelled)) \<and>
   cell (mem (snd (fit_wrap_begin native_no_session X4 labels4 [''feature_0'', ''feature_1'']
          () ''rule'' initial))) =
     (\<lambda>q. if g_rules labelled = Some q \<or> g_labels_vecs labelled = Some q then None
           else cell (mem labelled) q) \<and>
   cell (mem labelled) 2 = Some (Records [feature_1]) \<and>
   cell (mem labelled) 3 = Some (Records [label_0, label_1]) \<and>
   cell (mem (snd (fit_wrap_begin native_no_session X4 labels4 [''feature_0'', ''feature_1'']
          () ''rule'' initial))) 2 = None \<and>
   cell (mem (snd (fit_wrap_begin native_no_session X4 labels4 [''feature_0'', ''feature_1'']
          () ''rule'' initial))) 3 = None \<and>
   cell (mem (snd (fit_wrap_begin native_no_session X4 labels4 [''feature_0'', ''feature_1'']
          () ''rule'' initial))) 4 = None"
proof -
  have pool: "build_pool native_no_session X4 [''feature_0'', ''feature_1''] () initial =
      (Inr (), pooled)"
    by code_simp
  have labs: "load_labels native_no_session X4 labels4 ''rule'' pooled = (Inr ''rule'', labelled)"
    by code_simp
  have rel: "release_minor labelled = Inr labelled"
    by code_simp
  have live: "records_at (mem labelled) (g_rules labelled) = Some [feature_1]"
    by code_simp
  have count: "g_nrules labelled \<le> int (length [feature_1])"
    by code_simp
  have lab: "records_at (mem labelled) (g_labels_vecs labelled) = Some [label_0, label_1]"
    by code_simp
  have two: "2 \<le> length [label_0, label_1]"
    by simp
  have apart: "g_rules labelled \<noteq> g_labels_vecs labelled"
    by code_simp
  have mr: "fst (minority native_no_session () [feature_1] (g_nrules labelled)
      [label_0, label_1] (shape0 X4)) = 0"
    by code_simp
  have rb: "run_corels_begin native_no_session () ''rule'' (g_nrules labelled) (shape0 X4)
      [feature_1] [label_0, label_1]
      (snd (minority native_no_session () [feature_1] (g_nrules labelled) [label_0, label_1]
          (shape0 X4))) = - 1"
    by code_simp
  have pointers: "g_rules labelled = Some 2" "g_labels_vecs labelled = Some 3"
    by (simp_all add: labelled_def)
  have before: "cell (mem labelled) 2 = Some (Records [feature_1])"
    "cell (mem labelled) 3 = Some (Records [label_0, label_1])"
    "cell (mem labelled) 4 = None"
    by (simp_all add: labelled_def cell_def)
  from fit_wrap_begin_session_failure [OF pool labs rel live count lab two apart mr rb]
    pool labs rel live count lab two apart mr rb pointers before
  show ?thesis by simp
qed

text \<open>
  Claim C9 as stated fails: when the session start returns -1 the call returns \<open>False\<close>
  (line 254), where the claim has an exception.
\<close>

theorem fit_wrap_begin_returns_False:
  "fit_wrap_begin native_no_session X4 labels4 [''feature_0'', ''feature_1''] () ''rule'' initial =
     (Inr False,
      \<lparr>g_rules = None, g_labels_vecs = None, g_minor = None, g_nrules = 0,
         mem = [None, None, None, None, None]\<rparr>)"
  by code_simp

section \<open>Properties of \<open>fit_wrap_end\<close>\<close>

lemma antecedents_of_literal_ids: "antecedents_of r = Inr ks \<Longrightarrow> ks = literal_ids r"
  by (auto simp add: antecedents_of_def literal_ids_def split: if_splits option.splits)

lemma path_rules_result:
  "path_rules pool rulelist cs steps = Inr out \<Longrightarrow>
   length out = length steps \<and>
   (\<forall>j < length steps. \<exists>rs rl. pool = Some rs \<and> rulelist = Some rl \<and>
      out ! j = \<lparr>antecedents = literal_ids (rs ! nat (rl ! (steps ! j))),
                 prediction = cs ! (steps ! j)\<rparr>)"
proof (induction steps arbitrary: out)
  case Nil
  then show ?case by simp
next
  case (Cons i steps)
  from Cons.prems obtain rs rl ks tl where
    parts: "pool = Some rs" "rulelist = Some rl"
      "antecedents_of (rs ! nat (rl ! i)) = Inr ks"
      "path_rules pool rulelist cs steps = Inr tl"
      "out = \<lparr>antecedents = ks, prediction = cs ! i\<rparr> # tl"
    by (auto split: option.splits if_splits sum.splits)
  from Cons.IH [OF parts(4)] have
    tl: "length tl = length steps"
      "\<forall>j < length steps. \<exists>rs rl. pool = Some rs \<and> rulelist = Some rl \<and>
         tl ! j = \<lparr>antecedents = literal_ids (rs ! nat (rl ! (steps ! j))),
                   prediction = cs ! (steps ! j)\<rparr>"
    by simp_all
  from parts(3) have ks: "ks = literal_ids (rs ! nat (rl ! i))"
    by (rule antecedents_of_literal_ids)
  show ?case
  proof (intro conjI allI impI)
    show "length out = length (i # steps)"
      using parts(5) tl(1) by simp
  next
    fix j
    assume "j < length (i # steps)"
    then show "\<exists>rs rl. pool = Some rs \<and> rulelist = Some rl \<and>
        out ! j = \<lparr>antecedents = literal_ids (rs ! nat (rl ! ((i # steps) ! j))),
                    prediction = cs ! ((i # steps) ! j)\<rparr>"
      using parts(1,2,5) ks tl(2) by (cases j) simp_all
  qed
qed

lemma fit_wrap_end_returns:
  "fit_wrap_end (acc, rulelist, rulelist_size, classes) st = (Inr (acc', r_out), st') \<Longrightarrow>
   acc' = acc \<and>
   r_out_of (records_at (mem st) (g_rules st)) rulelist rulelist_size classes = Inr r_out"
  by (auto simp add: fit_wrap_end_def split: sum.splits)

text \<open>
  Claim C3, as amended. When \<open>fit_wrap_end\<close> returns, it hands on the accuracy, and the
  rule list is as follows. If \<open>run_corels_end\<close> left \<open>classes\<close> \<open>NULL\<close>, the list is
  empty. Else it has \<open>rulelist_size + 1\<close> entries: entry \<open>i\<close> below \<open>rulelist_size\<close>
  holds, in order, the literal ids of the pool record \<open>rules[rulelist[i]]\<close> and the class
  \<open>classes[i]\<close>, and the last entry is the default rule, whose antecedents are the one
  placeholder literal \<open>[0]\<close> and whose class is \<open>classes[rulelist_size]\<close>.
\<close>

theorem fit_wrap_end_rule_list:
  assumes ended: "fit_wrap_end (acc, rulelist, rulelist_size, classes) st =
                    (Inr (acc', r_out), st')"
  shows "(classes = None \<longrightarrow> r_out = []) \<and>
         (\<forall>cs. classes = Some cs \<longrightarrow>
            0 \<le> rulelist_size \<and>
            length r_out = nat rulelist_size + 1 \<and>
            last r_out = \<lparr>antecedents = [0], prediction = cs ! nat rulelist_size\<rparr> \<and>
            (\<forall>i < nat rulelist_size.
               \<exists>rs rl. records_at (mem st) (g_rules st) = Some rs \<and> rulelist = Some rl \<and>
                 r_out ! i = \<lparr>antecedents = literal_ids (rs ! nat (rl ! i)),
                              prediction = cs ! i\<rparr>))"
proof (rule conjI)
  show "classes = None \<longrightarrow> r_out = []"
    using fit_wrap_end_returns [OF ended] by (auto simp add: r_out_of_def)
next
  show "\<forall>cs. classes = Some cs \<longrightarrow>
      0 \<le> rulelist_size \<and>
      length r_out = nat rulelist_size + 1 \<and>
      last r_out = \<lparr>antecedents = [0], prediction = cs ! nat rulelist_size\<rparr> \<and>
      (\<forall>i < nat rulelist_size.
         \<exists>rs rl. records_at (mem st) (g_rules st) = Some rs \<and> rulelist = Some rl \<and>
           r_out ! i = \<lparr>antecedents = literal_ids (rs ! nat (rl ! i)), prediction = cs ! i\<rparr>)"
  proof (rule allI, rule impI)
    fix cs
    assume cs: "classes = Some cs"
    with fit_wrap_end_returns [OF ended] obtain out where
      out: "path_rules (records_at (mem st) (g_rules st)) rulelist cs [0..<nat rulelist_size] =
          Inr out"
        "0 \<le> rulelist_size"
        "r_out = out @ [\<lparr>antecedents = [0], prediction = cs ! nat rulelist_size\<rparr>]"
      by (auto simp add: r_out_of_def split: sum.splits if_splits)
    from path_rules_result [OF out(1)] have
      len: "length out = nat rulelist_size"
      and each: "\<forall>j < nat rulelist_size.
        \<exists>rs rl. records_at (mem st) (g_rules st) = Some rs \<and> rulelist = Some rl \<and>
          out ! j = \<lparr>antecedents = literal_ids (rs ! nat (rl ! j)), prediction = cs ! j\<rparr>"
      by simp_all
    have size: "length r_out = nat rulelist_size + 1"
      using out(3) len by simp
    have dflt: "last r_out = \<lparr>antecedents = [0], prediction = cs ! nat rulelist_size\<rparr>"
      using out(3) by simp
    have path: "\<forall>i < nat rulelist_size.
        \<exists>rs rl. records_at (mem st) (g_rules st) = Some rs \<and> rulelist = Some rl \<and>
          r_out ! i = \<lparr>antecedents = literal_ids (rs ! nat (rl ! i)), prediction = cs ! i\<rparr>"
      using each out(3) len by (simp add: nth_append)
    from out(2) size dflt path
    show "0 \<le> rulelist_size \<and>
      length r_out = nat rulelist_size + 1 \<and>
      last r_out = \<lparr>antecedents = [0], prediction = cs ! nat rulelist_size\<rparr> \<and>
      (\<forall>i < nat rulelist_size.
         \<exists>rs rl. records_at (mem st) (g_rules st) = Some rs \<and> rulelist = Some rl \<and>
           r_out ! i = \<lparr>antecedents = literal_ids (rs ! nat (rl ! i)), prediction = cs ! i\<rparr>)"
      by blast
  qed
qed

theorem fit_wrap_end_rule_list_witness:
  "fit_wrap_end (1 :: int, Some [0], 1, Some [1, 0]) active =
     (Inr (1, [\<lparr>antecedents = [2], prediction = 1\<rparr>, \<lparr>antecedents = [0], prediction = 0\<rparr>]),
      \<lparr>g_rules = None, g_labels_vecs = None, g_minor = None, g_nrules = 0,
         mem = [None, None, None, None, None]\<rparr>) \<and>
   last [\<lparr>antecedents = [2], prediction = 1\<rparr>, \<lparr>antecedents = [0], prediction = 0\<rparr>] =
     \<lparr>antecedents = [0], prediction = [1, 0] ! nat 1\<rparr> \<and>
   [\<lparr>antecedents = [2], prediction = 1\<rparr>, \<lparr>antecedents = [0], prediction = 0\<rparr>] ! 0 =
     \<lparr>antecedents = literal_ids (feature_1), prediction = [1, 0] ! 0\<rparr>"
proof -
  have ended: "fit_wrap_end (1 :: int, Some [0], 1, Some [1, 0]) active =
     (Inr (1, [\<lparr>antecedents = [2], prediction = 1\<rparr>, \<lparr>antecedents = [0], prediction = 0\<rparr>]),
      \<lparr>g_rules = None, g_labels_vecs = None, g_minor = None, g_nrules = 0,
         mem = [None, None, None, None, None]\<rparr>)"
    by code_simp
  have ids: "literal_ids feature_1 = [2]"
    by code_simp
  from fit_wrap_end_rule_list [OF ended] ended ids
  show ?thesis by simp
qed

text \<open>
  Claim C3 as stated fails: for the optimal path of the example scenario the default rule
  comes out with the antecedents \<open>[0]\<close> (line 283), not with the empty sequence.
\<close>

theorem fit_wrap_end_default_placeholder:
  "fst (fit_wrap_end (1 :: int, Some [0], 1, Some [1, 0]) active) =
     Inr (1, [\<lparr>antecedents = [2], prediction = 1\<rparr>, \<lparr>antecedents = [0], prediction = 0\<rparr>]) \<and>
   fst (fit_wrap_end (1 :: int, Some [0], 1, Some [1, 0]) active) \<noteq>
     Inr (1, [\<lparr>antecedents = [2], prediction = 1\<rparr>, \<lparr>antecedents = [], prediction = 0\<rparr>])"
  by code_simp

end
